theory Spec2Isabelle
  imports Main
begin

section \<open>objregex: pattern matching over sequences of arbitrary items\<close>

text \<open>
  A shallow embedding of \<^verbatim>\<open>objregex.py\<close>. Python integers are \<open>int\<close>, the item
  sequence is a list, exceptions are the left summand of a sum type.

  Instances of class \<^verbatim>\<open>Match\<close> are never mutated, but the code compares them with
  \<^verbatim>\<open>==\<close>, and the class defines no \<^verbatim>\<open>__eq__\<close>, so the comparison is by object identity.
  Every object therefore carries the identity it was allocated with, and every operation
  that may construct a \<^verbatim>\<open>Match\<close> threads the allocator: a counter that holds the next
  unused identity.
\<close>

subsection \<open>Exceptions\<close>

datatype error =
    NoMoreItems       \<comment> \<open>class NoMoreItems(Exception)\<close>
  | IndexError        \<comment> \<open>raised by \<^verbatim>\<open>items[i]\<close> out of range\<close>
  | OtherException    \<comment> \<open>anything else a caller-supplied matcher raises\<close>

subsection \<open>class Match\<close>

type_synonym alloc = nat

record 'a Match =
  ident :: nat
  items :: "'a list"
  start :: int
  end' :: int

text \<open>\<^verbatim>\<open>Match(items, start, end)\<close>: allocates a new object.\<close>

definition new_Match :: "'a list \<Rightarrow> int \<Rightarrow> int \<Rightarrow> alloc \<Rightarrow> 'a Match \<times> alloc" where
  "new_Match xs s e h = (\<lparr>ident = h, items = xs, start = s, end' = e\<rparr>, Suc h)"

text \<open>\<^verbatim>\<open>xs[i]\<close> on a Python list: a negative index counts from the end.\<close>

definition getitem :: "'a list \<Rightarrow> int \<Rightarrow> error + 'a" where
  "getitem xs i =
     (if 0 \<le> i \<and> i < int (length xs) then Inr (xs ! nat i)
      else if i < 0 \<and> - int (length xs) \<le> i then Inr (xs ! nat (int (length xs) + i))
      else Inl IndexError)"

definition has_next :: "'a Match \<Rightarrow> bool" where
  "has_next m = (end' m < int (length (items m)))"

text \<open>The property \<^verbatim>\<open>next\<close>.\<close>

definition next_item :: "'a Match \<Rightarrow> error + 'a" where
  "next_item m =
     (if end' m \<ge> int (length (items m)) then Inl NoMoreItems
      else getitem (items m) (end' m))"

definition advance :: "'a Match \<Rightarrow> int \<Rightarrow> alloc \<Rightarrow> 'a Match \<times> alloc" where
  "advance m n h = new_Match (items m) (start m) (end' m + n) h"

text \<open>
  The method \<^verbatim>\<open>__equals__\<close>. Python never calls a method of this name: it is not the
  special method \<^verbatim>\<open>__eq__\<close>.
\<close>

definition equals :: "'a Match \<Rightarrow> 'a Match \<Rightarrow> bool" where
  "equals m other = (items m = items other \<and> start m = start other \<and> end' m = end' other)"

text \<open>
  \<^verbatim>\<open>a == b\<close> on two instances of \<^verbatim>\<open>Match\<close>: the class defines no \<^verbatim>\<open>__eq__\<close>, so this is
  \<^verbatim>\<open>object.__eq__\<close>, identity of the two objects.
\<close>

definition Match_eq :: "'a Match \<Rightarrow> 'a Match \<Rightarrow> bool" where
  "Match_eq a b = (ident a = ident b)"

text \<open>
  The truth value of an instance in \<^verbatim>\<open>if match:\<close> and \<^verbatim>\<open>match and ...\<close>: the class
  defines neither \<^verbatim>\<open>__bool__\<close> nor \<^verbatim>\<open>__len__\<close>, so every instance is true.
\<close>

definition Match_bool :: "'a Match \<Rightarrow> bool" where
  "Match_bool m = True"

subsection \<open>Matchers\<close>

text \<open>
  \<^verbatim>\<open>MatcherResultType = Union[bool, int, Optional[Match]]\<close>, and
  \<^verbatim>\<open>MatcherType = Union[Item, Callable[[Match], MatcherResultType]]\<close>.
  A callable may raise, and may construct objects.
\<close>

datatype 'a result = RBool bool | RInt int | RMatch "'a Match" | RNone

type_synonym 'a step = "'a Match \<Rightarrow> alloc \<Rightarrow> (error + 'a result) \<times> alloc"

datatype 'a matcher = Lit 'a | Fn "'a step"

text \<open>
  \<^verbatim>\<open>_test_one\<close>. \<^verbatim>\<open>False == 0\<close> holds in Python, and \<^verbatim>\<open>end + True\<close> is \<^verbatim>\<open>end + 1\<close>.
\<close>

fun test_one :: "'a matcher \<Rightarrow> 'a Match \<Rightarrow> alloc \<Rightarrow> (error + 'a Match option) \<times> alloc" where
  "test_one (Lit v) m h =
     (if has_next m then
        (case next_item m of
           Inl e \<Rightarrow> (Inl e, h)
         | Inr x \<Rightarrow>
             if x = v then (let (m', h') = advance m 1 h in (Inr (Some m'), h'))
             else (Inr None, h))
      else (Inr None, h))"
| "test_one (Fn f) m h =
     (case f m h of
        (Inl NoMoreItems, h') \<Rightarrow> (Inr None, h')
      | (Inl e, h') \<Rightarrow> (Inl e, h')
      | (Inr (RMatch r), h') \<Rightarrow> (Inr (Some r), h')
      | (Inr RNone, h') \<Rightarrow> (Inr None, h')
      | (Inr (RBool b), h') \<Rightarrow>
          if \<not> b then (Inr None, h')
          else (let (m', h'') = advance m 1 h' in (Inr (Some m'), h''))
      | (Inr (RInt n), h') \<Rightarrow>
          if n = 0 then (Inr None, h')
          else (let (m', h'') = advance m n h' in (Inr (Some m'), h'')))"

text \<open>The loop of \<^verbatim>\<open>_general_match\<close>, from the current \<^verbatim>\<open>match\<close>.\<close>

fun match_loop :: "'a matcher list \<Rightarrow> 'a Match \<Rightarrow> alloc \<Rightarrow> (error + 'a Match) \<times> alloc" where
  "match_loop [] m h = (Inr m, h)"
| "match_loop (x # xs) m h =
     (case test_one x m h of
        (Inl e, h') \<Rightarrow> (Inl e, h')
      | (Inr None, h') \<Rightarrow> (Inr m, h')
      | (Inr (Some m'), h') \<Rightarrow> match_loop xs m' h')"

definition general_match ::
  "'a matcher list \<Rightarrow> 'a list \<Rightarrow> int \<Rightarrow> alloc \<Rightarrow> (error + 'a Match) \<times> alloc" where
  "general_match matchers xs s h =
     (let (m, h') = new_Match xs s s h in match_loop matchers m h')"

subsection \<open>User functions\<close>

definition any :: "'a matcher" where
  "any = Fn (\<lambda>m h. (Inr (RBool True), h))"

definition start_matcher :: "'a matcher" where
  "start_matcher = Fn (\<lambda>m h. (Inr (RBool (end' m = 0)), h))"

definition end_matcher :: "'a matcher" where
  "end_matcher = Fn (\<lambda>m h. (Inr (RBool (end' m = int (length (items m)))), h))"


text \<open>The first loop of \<^verbatim>\<open>repeat\<close>: \<^verbatim>\<open>for _ in range(min_n)\<close>.\<close>

fun repeat_required ::
  "'a matcher \<Rightarrow> nat \<Rightarrow> 'a Match \<Rightarrow> alloc \<Rightarrow> (error + 'a Match option) \<times> alloc" where
  "repeat_required matcher 0 m h = (Inr (Some m), h)"
| "repeat_required matcher (Suc k) m h =
     (case test_one matcher m h of
        (Inl e, h') \<Rightarrow> (Inl e, h')
      | (Inr None, h') \<Rightarrow> (Inr None, h')
      | (Inr (Some m'), h') \<Rightarrow> repeat_required matcher k m' h')"

text \<open>The second loop of \<^verbatim>\<open>repeat\<close>, over a range fixed when the loop starts.\<close>

fun repeat_greedy ::
  "'a matcher \<Rightarrow> nat \<Rightarrow> 'a Match \<Rightarrow> alloc \<Rightarrow> (error + 'a Match) \<times> alloc" where
  "repeat_greedy matcher 0 m h = (Inr m, h)"
| "repeat_greedy matcher (Suc k) m h =
     (case test_one matcher m h of
        (Inl e, h') \<Rightarrow> (Inl e, h')
      | (Inr None, h') \<Rightarrow> (Inr m, h')
      | (Inr (Some new_match), h') \<Rightarrow>
          if Match_eq new_match m then (Inr m, h')
          else repeat_greedy matcher k new_match h')"

text \<open>\<^verbatim>\<open>range(n)\<close> is empty for a negative \<^verbatim>\<open>n\<close>, which \<open>nat\<close> maps to 0.\<close>

definition repeat :: "'a matcher \<Rightarrow> int \<Rightarrow> int option \<Rightarrow> 'a matcher" where
  "repeat matcher min_n max_n =
     Fn (\<lambda>m0 h.
       case repeat_required matcher (nat min_n) m0 h of
         (Inl e, h') \<Rightarrow> (Inl e, h')
       | (Inr None, h') \<Rightarrow> (Inr RNone, h')
       | (Inr (Some m), h') \<Rightarrow>
           (case repeat_greedy matcher
                   (nat (case max_n of
                           Some mx \<Rightarrow> mx - min_n
                         | None \<Rightarrow> int (length (items m)) - end' m)) m h' of
              (Inl e, h'') \<Rightarrow> (Inl e, h'')
            | (Inr m', h'') \<Rightarrow> (Inr (RMatch m'), h'')))"

definition one_or_more :: "'a matcher \<Rightarrow> 'a matcher" where
  "one_or_more matcher = repeat matcher 1 None"

definition zero_or_more :: "'a matcher \<Rightarrow> 'a matcher" where
  "zero_or_more matcher = repeat matcher 0 None"

definition fullmatch ::
  "'a matcher list \<Rightarrow> 'a list \<Rightarrow> alloc \<Rightarrow> (error + 'a Match option) \<times> alloc" where
  "fullmatch matchers xs h =
     (case general_match matchers xs 0 h of
        (Inl e, h') \<Rightarrow> (Inl e, h')
      | (Inr m, h') \<Rightarrow>
          (if Match_bool m \<and> \<not> has_next m then Inr (Some m) else Inr None, h'))"

text \<open>
  The generator \<^verbatim>\<open>findall\<close>, resumed with its local variable \<^verbatim>\<open>start\<close> at \<open>s\<close>: it runs
  to the next \<^verbatim>\<open>yield\<close> and gives the match together with the value \<^verbatim>\<open>start\<close> has when
  the loop is entered again (\<^verbatim>\<open>start = match.end\<close>), or it leaves the loop (\<open>None\<close>,
  the generator is exhausted). A round that does not yield adds 1 to \<^verbatim>\<open>start\<close>, so the
  rounds without a yield are bounded by \<^verbatim>\<open>len(items) - start\<close>.
\<close>

function findall_next ::
  "'a matcher list \<Rightarrow> 'a list \<Rightarrow> int \<Rightarrow> alloc \<Rightarrow> (error + ('a Match \<times> int) option) \<times> alloc" where
  "findall_next matchers xs s h =
     (if s < int (length xs) then
        (case general_match matchers xs s h of
           (Inl e, h') \<Rightarrow> (Inl e, h')
         | (Inr m, h') \<Rightarrow>
             if Match_bool m then (Inr (Some (m, end' m)), h')
             else findall_next matchers xs (s + 1) h')
      else (Inr None, h))"
  by pat_completeness auto
termination
  by (relation "measure (\<lambda>(matchers, xs, s, h). nat (int (length xs) - s))") auto

text \<open>
  The first \<open>n\<close> matches a caller takes from \<^verbatim>\<open>findall(matchers, items)\<close>, fewer when
  the generator is exhausted before.
\<close>

fun findall_from ::
  "nat \<Rightarrow> 'a matcher list \<Rightarrow> 'a list \<Rightarrow> int \<Rightarrow> alloc \<Rightarrow> (error + 'a Match list) \<times> alloc" where
  "findall_from 0 matchers xs s h = (Inr [], h)"
| "findall_from (Suc n) matchers xs s h =
     (case findall_next matchers xs s h of
        (Inl e, h') \<Rightarrow> (Inl e, h')
      | (Inr None, h') \<Rightarrow> (Inr [], h')
      | (Inr (Some (m, s')), h') \<Rightarrow>
          (case findall_from n matchers xs s' h' of
             (Inl e, h'') \<Rightarrow> (Inl e, h'')
           | (Inr ms, h'') \<Rightarrow> (Inr (m # ms), h'')))"

definition findall ::
  "nat \<Rightarrow> 'a matcher list \<Rightarrow> 'a list \<Rightarrow> alloc \<Rightarrow> (error + 'a Match list) \<times> alloc" where
  "findall n matchers xs h = findall_from n matchers xs 0 h"

text \<open>\<^verbatim>\<open>search\<close>: \<^verbatim>\<open>next(findall(...))\<close>, with \<^verbatim>\<open>StopIteration\<close> turned into \<^verbatim>\<open>None\<close>.\<close>

definition search ::
  "'a matcher list \<Rightarrow> 'a list \<Rightarrow> alloc \<Rightarrow> (error + 'a Match option) \<times> alloc" where
  "search matchers xs h =
     (case findall_next matchers xs 0 h of
        (Inl e, h') \<Rightarrow> (Inl e, h')
      | (Inr None, h') \<Rightarrow> (Inr None, h')
      | (Inr (Some (m, s')), h') \<Rightarrow> (Inr (Some m), h'))"

subsection \<open>Caller-supplied step functions\<close>

text \<open>
  The step function of the module's own test,
  \<^verbatim>\<open>lambda m: 0 < m.next < 3\<close>: it reads \<^verbatim>\<open>m.next\<close> without looking at \<^verbatim>\<open>m.has_next\<close>.
\<close>

definition next_between_0_3 :: "int step" where
  "next_between_0_3 m h =
     (case next_item m of
        Inl e \<Rightarrow> (Inl e, h)
      | Inr x \<Rightarrow> (Inr (RBool (0 < x \<and> x < 3)), h))"


subsection \<open>Properties of states and matchers\<close>



text \<open>
  \<open>applications x j (m, h) (m', h')\<close>: \<open>j\<close> applications of \<open>x\<close> by \<^verbatim>\<open>_test_one\<close>, one
  after the other from the state \<open>m\<close>, all succeed and lead to the state \<open>m'\<close>.
\<close>

inductive applications ::
  "'a matcher \<Rightarrow> nat \<Rightarrow> 'a Match \<times> alloc \<Rightarrow> 'a Match \<times> alloc \<Rightarrow> bool"
  for x :: "'a matcher" where
  none: "applications x 0 s s"
| more: "test_one x m h = (Inr (Some m1), h1) \<Longrightarrow> applications x j (m1, h1) s
         \<Longrightarrow> applications x (Suc j) (m, h) s"

code_pred applications .

section \<open>Verification\<close>

subsection \<open>Unfolding the operations\<close>

declare findall_next.simps [simp del]

lemma findall_next_unfold:
  "findall_next matchers xs s h =
     (if s < int (length xs) then
        (case general_match matchers xs s h of
           (Inl e, h') \<Rightarrow> (Inl e, h')
         | (Inr m, h') \<Rightarrow> (Inr (Some (m, end' m)), h'))
      else (Inr None, h))"
  by (subst findall_next.simps) (simp add: Match_bool_def split: prod.splits sum.splits)

lemmas Match_defs =
  new_Match_def advance_def has_next_def next_item_def getitem_def

subsection \<open>Literal matchers\<close>

lemma test_one_Lit_Some:
  assumes "test_one (Lit v) m h = (Inr (Some m'), h')"
  shows "items m' = items m \<and> start m' = start m \<and> end' m' = end' m + 1
         \<and> end' m < int (length (items m))"
  using assms by (auto simp: Match_defs Let_def split: if_splits sum.splits)

lemma match_loop_literals:
  assumes "match_loop (map Lit vs) m h = (Inr r, h')"
  shows "items r = items m \<and> start r = start m"
  using assms
proof (induction vs arbitrary: m h)
  case Nil
  then show ?case by simp
next
  case (Cons v vs)
  show ?case
  proof (cases "test_one (Lit v) m h")
    case (Pair res h1)
    show ?thesis
    proof (cases res)
      case (Inl e)
      with Pair Cons.prems show ?thesis by simp
    next
      case (Inr opt)
      show ?thesis
      proof (cases opt)
        case None
        with Inr Pair Cons.prems show ?thesis by simp
      next
        case (Some m1)
        with Inr Pair have t: "test_one (Lit v) m h = (Inr (Some m1), h1)" by simp
        with Cons.prems have "match_loop (map Lit vs) m1 h1 = (Inr r, h')" by simp
        from Cons.IH [OF this] test_one_Lit_Some [OF t] show ?thesis by simp
      qed
    qed
  qed
qed

lemma general_match_literals:
  assumes "general_match (map Lit vs) xs s h = (Inr r, h')"
  shows "items r = xs \<and> start r = s"
  using assms
    match_loop_literals [of vs "\<lparr>ident = h, items = xs, start = s, end' = s\<rparr>" "Suc h" r h']
  by (simp add: general_match_def new_Match_def)

subsection \<open>The exhaustion signal\<close>

lemma test_one_no_exhaustion: "test_one x m h \<noteq> (Inl NoMoreItems, h')"
proof (cases x)
  case (Lit v)
  then show ?thesis
    by (simp add: Match_defs Let_def)
next
  case (Fn f)
  then show ?thesis
    by (simp split: prod.splits sum.splits error.splits result.splits)
qed

lemma match_loop_no_exhaustion: "match_loop xs m h \<noteq> (Inl NoMoreItems, h')"
proof (induction xs arbitrary: m h)
  case Nil
  show ?case by simp
next
  case (Cons x xs)
  show ?case
    using test_one_no_exhaustion [of x m h] Cons.IH
    by (auto split: prod.splits sum.splits option.splits)
qed

lemma general_match_no_exhaustion: "general_match xs ys s h \<noteq> (Inl NoMoreItems, h')"
  by (simp add: general_match_def new_Match_def match_loop_no_exhaustion)

lemma findall_next_no_exhaustion: "findall_next xs ys s h \<noteq> (Inl NoMoreItems, h')"
  using general_match_no_exhaustion [of xs ys s h]
  by (auto simp: findall_next_unfold split: prod.splits sum.splits)

lemma findall_from_no_exhaustion: "findall_from n xs ys s h \<noteq> (Inl NoMoreItems, h')"
proof (induction n arbitrary: s h)
  case 0
  show ?case by simp
next
  case (Suc n)
  show ?case
    using findall_next_no_exhaustion [of xs ys s h] Suc.IH
    by (auto split: prod.splits sum.splits option.splits)
qed

subsection \<open>A scan that does not advance\<close>

lemma findall_next_zero_width:
  "findall_next [Lit 2] [1 :: int] 0 h =
     (Inr (Some (\<lparr>ident = h, items = [1], start = 0, end' = 0\<rparr>, 0)), Suc h)"
  by (simp add: findall_next_unfold general_match_def Match_defs)

lemma findall_from_zero_width:
  "\<exists>ms. findall_from n [Lit 2] [1 :: int] 0 h = (Inr ms, h + n) \<and> length ms = n
     \<and> map (\<lambda>m. (start m, end' m)) ms = replicate n (0, 0)"
proof (induction n arbitrary: h)
  case 0
  show ?case by simp
next
  case (Suc n)
  from Suc.IH [of "Suc h"] obtain ms where
    "findall_from n [Lit 2] [1 :: int] 0 (Suc h) = (Inr ms, Suc h + n)" "length ms = n"
    "map (\<lambda>m. (start m, end' m)) ms = replicate n (0, 0)" by blast
  then show ?case by (simp add: findall_next_zero_width)
qed

subsection \<open>The required repetitions of \<^verbatim>\<open>repeat\<close>\<close>

lemma repeat_required_fails:
  assumes "applications x j s t" "test_one x (fst t) (snd t) = (Inr None, h2)" "j < k"
  shows "repeat_required x k (fst s) (snd s) = (Inr None, h2)"
  using assms
proof (induction arbitrary: k rule: applications.induct)
  case (none s)
  then obtain k' where "k = Suc k'" by (cases k) auto
  with none show ?case by simp
next
  case (more m h m1 h1 j s)
  then obtain k' where k: "k = Suc k'" "j < k'" by (cases k) auto
  from more.IH [OF more.prems(1) k(2)] more.hyps(1) k(1) show ?case by simp
qed

subsection \<open>Matchers that keep the bounds of a state\<close>









subsection \<open>The claims\<close>

text \<open>
  C1. Claimed: \<^verbatim>\<open>fullmatch(M, S)\<close> succeeds if and only if \<^verbatim>\<open>search(M + [end()], S)\<close>
  returns a match with start 0 and end \<^verbatim>\<open>len(S)\<close>. With \<^verbatim>\<open>M = [1, 2]\<close> and
  \<^verbatim>\<open>S = [1, 2]\<close>, \<^verbatim>\<open>fullmatch\<close> succeeds with end 2, and \<^verbatim>\<open>search\<close> applies \<^verbatim>\<open>end()\<close> to
  the state with end 2, where it succeeds and advances the state: the match returned has
  start 0 and end 3, one more than the length of the sequence.
\<close>

theorem search_with_end_overshoots:
  "fullmatch [Lit 1, Lit 2] [1, 2 :: int] h =
     (Inr (Some \<lparr>ident = Suc (Suc h), items = [1, 2], start = 0, end' = 2\<rparr>),
      Suc (Suc (Suc h)))
   \<and> search ([Lit 1, Lit 2] @ [end_matcher]) [1, 2 :: int] h =
     (Inr (Some \<lparr>ident = Suc (Suc (Suc h)), items = [1, 2], start = 0, end' = 3\<rparr>),
      Suc (Suc (Suc (Suc h))))"
  by (simp add: fullmatch_def search_def findall_next_unfold general_match_def
                end_matcher_def Match_defs Match_bool_def)

text \<open>
  C2. Claimed: \<^verbatim>\<open>findall(M, S)\<close> yields finitely many matches and terminates. In the code
  \<^verbatim>\<open>_general_match\<close> always returns a \<^verbatim>\<open>Match\<close>, which is true in \<^verbatim>\<open>if match:\<close>, so the
  branch \<^verbatim>\<open>start += 1\<close> is never taken. On \<^verbatim>\<open>findall([2], [1])\<close> the generator yields the
  zero-width match at offset 0 and is resumed at offset 0 again; a caller who takes \<open>n\<close>
  matches gets \<open>n\<close> of them, for every \<open>n\<close>.
\<close>

theorem findall_yields_without_end:
  "findall_next [Lit 2] [1 :: int] 0 h =
     (Inr (Some (\<lparr>ident = h, items = [1], start = 0, end' = 0\<rparr>, 0)), Suc h)
   \<and> (\<exists>ms. findall n [Lit 2] [1 :: int] h = (Inr ms, h + n) \<and> length ms = n
         \<and> map (\<lambda>m. (start m, end' m)) ms = replicate n (0, 0))"
  using findall_from_zero_width [of n h]
  by (simp add: findall_def findall_next_zero_width)

text \<open>
  C3. Claimed: \<^verbatim>\<open>search([2, 3], [1, 2, 3])\<close> returns a match with start 1 and end 3. The
  code returns the result of the attempt at offset 0, where the first matcher fails:
  a zero-width match with start 0 and end 0.
\<close>

theorem search_2_3_returns_offset_0:
  "search [Lit 2, Lit 3] [1, 2, 3 :: int] h =
     (Inr (Some \<lparr>ident = h, items = [1, 2, 3], start = 0, end' = 0\<rparr>), Suc h)"
  by (simp add: search_def findall_next_unfold general_match_def Match_defs)

text \<open>
  C4. For a list of literal matchers, when the sequential matcher from offset 0 stops at
  a state whose end is the length of the sequence, \<^verbatim>\<open>fullmatch\<close> reports success with
  that state, also when it stopped at a matcher that failed there: \<^verbatim>\<open>fullmatch([1,2,3],
  [1,2])\<close> is a match with end 2, and \<^verbatim>\<open>fullmatch(M, [])\<close> is a zero-width match.
\<close>

theorem fullmatch_accepts_state_at_end:
  "(general_match (map Lit vs) xs 0 h = (Inr m, h') \<and> end' m = int (length xs)
      \<longrightarrow> fullmatch (map Lit vs) xs h = (Inr (Some m), h'))
   \<and> fullmatch [Lit 1, Lit 2, Lit 3] [1, 2 :: int] h =
       (Inr (Some \<lparr>ident = Suc (Suc h), items = [1, 2], start = 0, end' = 2\<rparr>),
        Suc (Suc (Suc h)))
   \<and> fullmatch (map Lit vs) [] h =
       (Inr (Some \<lparr>ident = h, items = [], start = 0, end' = 0\<rparr>), Suc h)"
proof (intro conjI impI)
  assume a: "general_match (map Lit vs) xs 0 h = (Inr m, h') \<and> end' m = int (length xs)"
  then have "items m = xs" using general_match_literals by blast
  with a show "fullmatch (map Lit vs) xs h = (Inr (Some m), h')"
    by (simp add: fullmatch_def Match_bool_def has_next_def)
next
  show "fullmatch [Lit 1, Lit 2, Lit 3] [1, 2 :: int] h =
       (Inr (Some \<lparr>ident = Suc (Suc h), items = [1, 2], start = 0, end' = 2\<rparr>),
        Suc (Suc (Suc h)))"
    by (simp add: fullmatch_def general_match_def Match_defs Match_bool_def)
next
  have "match_loop (map Lit vs) \<lparr>ident = h, items = [], start = 0, end' = 0\<rparr> (Suc h)
        = (Inr \<lparr>ident = h, items = [], start = 0, end' = 0\<rparr>, Suc h)"
    by (cases vs) (simp_all add: has_next_def)
  then show "fullmatch (map Lit vs) [] h =
       (Inr (Some \<lparr>ident = h, items = [], start = 0, end' = 0\<rparr>), Suc h)"
    by (simp add: fullmatch_def general_match_def new_Match_def Match_bool_def has_next_def)
qed

text \<open>
  C4, at \<^verbatim>\<open>M = [1, 2, 3]\<close> and \<^verbatim>\<open>S = [1, 2]\<close>: the sequential matcher stops at the
  literal 3 with end 2, the length of the sequence.
\<close>

theorem fullmatch_accepts_state_at_end_witness:
  "general_match (map Lit [1, 2, 3]) [1, 2 :: int] 0 0
     = (Inr \<lparr>ident = 2, items = [1, 2], start = 0, end' = 2\<rparr>, 3)
   \<and> fullmatch (map Lit [1, 2, 3]) [1, 2 :: int] 0
     = (Inr (Some \<lparr>ident = 2, items = [1, 2], start = 0, end' = 2\<rparr>), 3)"
proof -
  have g: "general_match (map Lit [1, 2, 3]) [1, 2 :: int] 0 0
     = (Inr \<lparr>ident = 2, items = [1, 2], start = 0, end' = 2\<rparr>, 3)"
    by (simp add: general_match_def Match_defs numeral_3_eq_3 numeral_2_eq_2)
  with fullmatch_accepts_state_at_end
         [of "[1, 2, 3 :: int]" "[1, 2]" 0 "\<lparr>ident = 2, items = [1, 2], start = 0, end' = 2\<rparr>" 3]
  show ?thesis by simp
qed




text \<open>
  C6. Claimed: \<^verbatim>\<open>start()\<close> and \<^verbatim>\<open>end()\<close> succeed with the end of the state unchanged.
  Both return \<^verbatim>\<open>True\<close>, which \<^verbatim>\<open>_test_one\<close> passes to \<^verbatim>\<open>advance\<close>: where they succeed,
  the end grows by 1, for \<^verbatim>\<open>end()\<close> to one more than the length of the sequence.
  They fail where the claim says they fail. So \<^verbatim>\<open>fullmatch([start(), 1, 2], [1, 2])\<close>
  reports no match: \<^verbatim>\<open>start()\<close> has consumed the item 1.
\<close>

theorem anchors_consume_one:
  "test_one start_matcher m h =
     (if end' m = 0
      then (Inr (Some \<lparr>ident = h, items = items m, start = start m, end' = 1\<rparr>), Suc h)
      else (Inr None, h))
   \<and> test_one end_matcher m h =
     (if end' m = int (length (items m))
      then (Inr (Some \<lparr>ident = h, items = items m, start = start m,
                       end' = int (length (items m)) + 1\<rparr>), Suc h)
      else (Inr None, h))
   \<and> fullmatch [start_matcher, Lit 1, Lit 2] [1, 2 :: int] h = (Inr None, Suc (Suc h))"
  by (simp add: fullmatch_def general_match_def start_matcher_def end_matcher_def Match_defs
                Match_bool_def)

text \<open>
  C7. Claimed: \<^verbatim>\<open>any()\<close> fails on a state whose end is the length of the sequence. The
  step function returns \<^verbatim>\<open>True\<close> without reading \<^verbatim>\<open>match.next\<close>, so nothing raises the
  exhaustion signal: \<^verbatim>\<open>any()\<close> succeeds on every state and adds 1 to its end, and
  \<^verbatim>\<open>fullmatch([any()], [])\<close> is a match with end 1 over the empty sequence.
\<close>

theorem any_succeeds_past_the_end:
  "test_one any m h =
     (Inr (Some \<lparr>ident = h, items = items m, start = start m, end' = end' m + 1\<rparr>), Suc h)
   \<and> fullmatch [any] ([] :: int list) h =
     (Inr (Some \<lparr>ident = Suc h, items = [], start = 0, end' = 1\<rparr>), Suc (Suc h))"
  by (simp add: fullmatch_def general_match_def any_def Match_defs Match_bool_def)

text \<open>
  C8. Claimed: two states are \<^verbatim>\<open>==\<close> when their sequence, start and end are the same.
  The comparison of the fields is the method \<^verbatim>\<open>__equals__\<close>, which \<^verbatim>\<open>==\<close> does not call:
  two objects constructed one after the other with the same fields are not \<^verbatim>\<open>==\<close>.
\<close>

theorem equal_fields_not_equal_objects:
  "\<not> Match_eq (fst (new_Match [1 :: int] 0 0 0)) (fst (new_Match [1 :: int] 0 0 1))
   \<and> equals (fst (new_Match [1 :: int] 0 0 0)) (fst (new_Match [1 :: int] 0 0 1))"
  by (simp add: Match_eq_def equals_def new_Match_def)

text \<open>
  C9. When \<open>j < k\<close> applications of a matcher succeed one after the other from a state
  and the next one fails, \<^verbatim>\<open>repeat(matcher, min_n=k)\<close>, with any \<^verbatim>\<open>max_n\<close>, applied by
  \<^verbatim>\<open>_test_one\<close> to that state reports no match.
\<close>

theorem repeat_fails_below_min_n:
  assumes "j < k" and "applications x j (m, h) (m', h')"
    and "test_one x m' h' = (Inr None, h2)"
  shows "test_one (repeat x (int k) max_n) m h = (Inr None, h2)"
  using repeat_required_fails [OF assms(2), of h2 k] assms(1,3)
  by (simp add: repeat_def)

text \<open>
  C9, at the literal 1 on \<^verbatim>\<open>[1, 1, 2]\<close> with \<^verbatim>\<open>min_n = 3\<close>: two applications succeed,
  the third fails.
\<close>

theorem repeat_fails_below_min_n_witness:
  "(2::nat) < 3
   \<and> applications (Lit (1::int)) 2 (\<lparr>ident = 0, items = [1, 1, 2], start = 0, end' = 0\<rparr>, 1)
        (\<lparr>ident = 2, items = [1, 1, 2], start = 0, end' = 2\<rparr>, 3)
   \<and> test_one (Lit (1::int)) \<lparr>ident = 2, items = [1, 1, 2], start = 0, end' = 2\<rparr> 3
       = (Inr None, 3)
   \<and> test_one (repeat (Lit (1::int)) (int 3) None)
         \<lparr>ident = 0, items = [1, 1, 2], start = 0, end' = 0\<rparr> 1
       = (Inr None, 3)"
proof -
  have s1: "test_one (Lit (1::int)) \<lparr>ident = 0, items = [1, 1, 2], start = 0, end' = 0\<rparr> 1
              = (Inr (Some \<lparr>ident = 1, items = [1, 1, 2], start = 0, end' = 1\<rparr>), 2)"
    by (simp add: Match_defs)
  have s2: "test_one (Lit (1::int)) \<lparr>ident = 1, items = [1, 1, 2], start = 0, end' = 1\<rparr> 2
              = (Inr (Some \<lparr>ident = 2, items = [1, 1, 2], start = 0, end' = 2\<rparr>), 3)"
    by (simp add: Match_defs)
  have s3: "test_one (Lit (1::int)) \<lparr>ident = 2, items = [1, 1, 2], start = 0, end' = 2\<rparr> 3
              = (Inr None, 3)"
    by (simp add: Match_defs)
  have a: "applications (Lit (1::int)) (Suc (Suc 0))
             (\<lparr>ident = 0, items = [1, 1, 2], start = 0, end' = 0\<rparr>, 1)
             (\<lparr>ident = 2, items = [1, 1, 2], start = 0, end' = 2\<rparr>, 3)"
    by (rule applications.more [OF s1]) (rule applications.more [OF s2], rule applications.none)
  then have a2: "applications (Lit (1::int)) 2
             (\<lparr>ident = 0, items = [1, 1, 2], start = 0, end' = 0\<rparr>, 1)
             (\<lparr>ident = 2, items = [1, 1, 2], start = 0, end' = 2\<rparr>, 3)"
    by (simp add: numeral_2_eq_2)
  have lt: "(2::nat) < 3" by simp
  from repeat_fails_below_min_n [OF lt a2 s3, of None] lt a2 s3 show ?thesis by blast
qed

text \<open>
  C10. When a step function raises the exhaustion signal, \<^verbatim>\<open>_test_one\<close> reports that
  the matcher failed, and no call of \<^verbatim>\<open>fullmatch\<close>, \<^verbatim>\<open>search\<close> or \<^verbatim>\<open>findall\<close> ends with
  that signal, whatever the matchers are.
\<close>

theorem exhaustion_never_surfaces:
  "(f m h = (Inl NoMoreItems, h') \<longrightarrow> test_one (Fn f) m h = (Inr None, h'))
   \<and> fst (fullmatch matchers xs h) \<noteq> Inl NoMoreItems
   \<and> fst (search matchers xs h) \<noteq> Inl NoMoreItems
   \<and> fst (findall n matchers xs h) \<noteq> Inl NoMoreItems"
proof -
  have "fst (fullmatch matchers xs h) \<noteq> Inl NoMoreItems"
    using general_match_no_exhaustion [of matchers xs 0 h]
    by (auto simp: fullmatch_def split: prod.splits sum.splits)
  moreover have "fst (search matchers xs h) \<noteq> Inl NoMoreItems"
    using findall_next_no_exhaustion [of matchers xs 0 h]
    by (auto simp: search_def split: prod.splits sum.splits option.splits)
  moreover have "fst (findall n matchers xs h) \<noteq> Inl NoMoreItems"
    using findall_from_no_exhaustion [of n matchers xs 0 h]
    by (cases "findall_from n matchers xs 0 h") (auto simp: findall_def)
  ultimately show ?thesis by simp
qed

text \<open>
  C10, at the step function \<^verbatim>\<open>lambda m: 0 < m.next < 3\<close> on the state that has consumed
  all of \<^verbatim>\<open>[1]\<close>: the step function raises the signal, the matcher fails.
\<close>

theorem exhaustion_never_surfaces_witness:
  "next_between_0_3 \<lparr>ident = 0, items = [1], start = 0, end' = 1\<rparr> 1 = (Inl NoMoreItems, 1)
   \<and> test_one (Fn next_between_0_3) \<lparr>ident = 0, items = [1], start = 0, end' = 1\<rparr> 1
       = (Inr None, 1)
   \<and> fst (fullmatch [Lit 1, Fn next_between_0_3] [1] 1) \<noteq> Inl NoMoreItems
   \<and> fst (search [Lit 1, Fn next_between_0_3] [1] 1) \<noteq> Inl NoMoreItems
   \<and> fst (findall 2 [Lit 1, Fn next_between_0_3] [1] 1) \<noteq> Inl NoMoreItems"
proof -
  have r: "next_between_0_3 \<lparr>ident = 0, items = [1], start = 0, end' = 1\<rparr> 1
             = (Inl NoMoreItems, 1)"
    by (simp add: next_between_0_3_def next_item_def)
  with exhaustion_never_surfaces
         [where f = next_between_0_3
            and m = "\<lparr>ident = 0, items = [1], start = 0, end' = 1\<rparr>" and h = 1 and h' = 1
            and matchers = "[Lit 1, Fn next_between_0_3]" and xs = "[1]" and n = 2]
  show ?thesis by simp
qed

end
